theory Spec2Isabelle
  imports Main
begin

section \<open>JavaScript values used by jsarch\<close>

text \<open>
  A JavaScript string is modelled as a \<^typ>\<open>string\<close>: one \<^typ>\<open>char\<close> per code unit,
  for texts whose code units lie in U+0000..U+00FF. In that range the white space
  and line terminator characters of ECMAScript (the class \<^verbatim>\<open>\s\<close>, and what
  \<^verbatim>\<open>trim\<close> and \<^verbatim>\<open>parseInt\<close> skip) are TAB, LF, VT, FF, CR, SPACE and NBSP.
\<close>

definition is_space :: "char \<Rightarrow> bool" where
  "is_space c \<longleftrightarrow> c \<in> set [CHR 0x09, CHR 0x0A, CHR 0x0B, CHR 0x0C, CHR 0x0D, CHR 0x20, CHR 0xA0]"

definition char_between :: "char \<Rightarrow> char \<Rightarrow> char \<Rightarrow> bool" where
  "char_between lo hi c \<longleftrightarrow> (of_char lo :: nat) \<le> of_char c \<and> (of_char c :: nat) \<le> of_char hi"

text \<open>The classes \<^verbatim>\<open>\d\<close> and \<^verbatim>\<open>\w\<close> of a regular expression without the unicode flag.\<close>

definition is_digit :: "char \<Rightarrow> bool" where
  "is_digit c \<longleftrightarrow> char_between CHR ''0'' CHR ''9'' c"

definition is_word :: "char \<Rightarrow> bool" where
  "is_word c \<longleftrightarrow> char_between CHR ''a'' CHR ''z'' c \<or> char_between CHR ''A'' CHR ''Z'' c
     \<or> is_digit c \<or> c = CHR ''_''"

text \<open>\<^verbatim>\<open>String.prototype.trim\<close>.\<close>

definition trim :: "string \<Rightarrow> string" where
  "trim s = rev (dropWhile is_space (rev (dropWhile is_space s)))"

text \<open>
  \<^verbatim>\<open>String.prototype.split\<close> with a one-character separator: the empty string
  gives one empty piece, and a trailing separator gives a trailing empty piece.
\<close>

fun split_on :: "char \<Rightarrow> string \<Rightarrow> string list" where
  "split_on d [] = [[]]"
| "split_on d (c # cs) =
     (if c = d then [] # split_on d cs
      else (case split_on d cs of [] \<Rightarrow> [[c]] | w # ws \<Rightarrow> (c # w) # ws))"

text \<open>
  A JavaScript number as \<^verbatim>\<open>parseInt\<close> returns it: \<open>NaN\<close> or an integer. The
  integer is the mathematical value of the digits, which is what the double holds
  for every value below \<open>2 ^ 53\<close>.
\<close>

datatype jsnum = NaN | Num int

definition digit_val :: "char \<Rightarrow> nat" where
  "digit_val c = of_char c - of_char CHR ''0''"

definition digits_val :: "string \<Rightarrow> nat" where
  "digits_val ds = foldl (\<lambda>a c. 10 * a + digit_val c) 0 ds"

text \<open>
  \<^verbatim>\<open>parseInt(s, 10)\<close>: leading white space is skipped, one sign is read, then the
  longest run of decimal digits; no digit at all gives \<open>NaN\<close>.
\<close>

definition parseInt :: "string \<Rightarrow> jsnum" where
  "parseInt s =
     (let t = dropWhile is_space s;
          neg = (case t of [] \<Rightarrow> False | c # _ \<Rightarrow> c = CHR ''-'');
          u = (case t of [] \<Rightarrow> [] | c # r \<Rightarrow> if c = CHR ''-'' \<or> c = CHR ''+'' then r else t);
          ds = takeWhile is_digit u
      in if ds = [] then NaN
         else Num (if neg then - int (digits_val ds) else int (digits_val ds)))"

text \<open>The relational operators \<^verbatim>\<open>>\<close> and \<^verbatim>\<open><\<close> on numbers: false when either side is \<open>NaN\<close>.\<close>

fun js_gt :: "jsnum \<Rightarrow> jsnum \<Rightarrow> bool" where
  "js_gt (Num x) (Num y) = (x > y)"
| "js_gt _ _ = False"

fun js_lt :: "jsnum \<Rightarrow> jsnum \<Rightarrow> bool" where
  "js_lt (Num x) (Num y) = (x < y)"
| "js_lt _ _ = False"

section \<open>Regular expressions\<close>

text \<open>
  The fragment of ECMAScript regular expressions that the two patterns of jsarch
  use: character classes, sequence, alternative, greedy quantifiers, positive
  lookahead, capture groups and the assertion \<^verbatim>\<open>^\<close> (no flag is set, so it holds at
  index 0 only).
\<close>

datatype regexp =
    Chars "char \<Rightarrow> bool"
  | Empty
  | Seq regexp regexp
  | Alt regexp regexp
  | Rep nat "nat option" regexp
  | Lookahead regexp
  | Capture nat regexp
  | Bol

text \<open>
  A state of the backtracking matcher: the capture groups set so far, the index
  reached in the input, and the input from that index on.
\<close>

record mstate =
  captures :: "nat \<Rightarrow> string option"
  endIndex :: nat
  remaining :: string

definition advance :: "mstate \<Rightarrow> mstate" where
  "advance x = x\<lparr> endIndex := Suc (endIndex x), remaining := tl (remaining x) \<rparr>"

text \<open>
  Every matcher returns the states in which it can end, in the order in which
  backtracking tries them; the head is the match that ECMAScript reports.

  \<open>repeatMatcher\<close> is RepeatMatcher for a greedy quantifier \<^verbatim>\<open>{min,max}\<close>
  (\<open>None\<close> for no upper bound): one more iteration is tried first, then the exit.
  An iteration that consumes no character is dropped. ECMAScript drops it once the
  minimum is reached; the iterated expressions of the two patterns below consume at
  least one character, so nothing is dropped for them. ECMAScript also clears the
  groups of the iterated expression before each iteration; in the two patterns an
  iteration that ends has set its group again.
\<close>

function repeatMatcher ::
  "(mstate \<Rightarrow> mstate list) \<Rightarrow> nat \<Rightarrow> nat option \<Rightarrow> mstate \<Rightarrow> mstate list" where
  "repeatMatcher m mn mx x =
     (if mx = Some 0 then [x]
      else
        let again = concat (map (\<lambda>y. repeatMatcher m (mn - 1) (map_option (\<lambda>k. k - 1) mx) y)
                     (filter (\<lambda>y. length (remaining y) < length (remaining x)) (m x)))
        in if mn \<noteq> 0 then again else again @ [x])"
  by pat_completeness auto
termination
  by (relation "measure (\<lambda>(m, mn, mx, x). length (remaining x))") auto

declare repeatMatcher.simps [simp del]

primrec matcher :: "regexp \<Rightarrow> mstate \<Rightarrow> mstate list" where
  "matcher (Chars P) x =
     (case remaining x of [] \<Rightarrow> [] | c # _ \<Rightarrow> if P c then [advance x] else [])"
| "matcher Empty x = [x]"
| "matcher (Seq r1 r2) x = concat (map (matcher r2) (matcher r1 x))"
| "matcher (Alt r1 r2) x = matcher r1 x @ matcher r2 x"
| "matcher (Rep mn mx r) x = repeatMatcher (matcher r) mn mx x"
| "matcher (Lookahead r) x = (case matcher r x of [] \<Rightarrow> [] | _ # _ \<Rightarrow> [x])"
| "matcher (Capture n r) x =
     map (\<lambda>y. y\<lparr> captures := (captures y)(n \<mapsto> take (endIndex y - endIndex x) (remaining x)) \<rparr>)
       (matcher r x)"
| "matcher Bol x = (if endIndex x = 0 then [x] else [])"

text \<open>
  The result array of \<^verbatim>\<open>RegExp.prototype.exec\<close>: \<open>whole\<close> is element 0, \<open>groups n\<close>
  is element \<open>n\<close> for a capture group, \<open>match_index\<close> is where the match starts.
\<close>

record regexp_match =
  whole :: string
  groups :: "nat \<Rightarrow> string option"
  match_index :: nat

text \<open>
  \<^verbatim>\<open>exec\<close> on a pattern without the global or sticky flag: the match is tried at
  index 0, then at each later index up to the length of the input.
\<close>

fun search :: "regexp \<Rightarrow> nat \<Rightarrow> string \<Rightarrow> regexp_match option" where
  "search r i s =
     (case matcher r \<lparr> captures = Map.empty, endIndex = i, remaining = s \<rparr> of
        y # _ \<Rightarrow> Some \<lparr> whole = take (endIndex y - i) s, groups = captures y, match_index = i \<rparr>
      | [] \<Rightarrow> (case s of [] \<Rightarrow> None | _ # s' \<Rightarrow> search r (Suc i) s'))"

declare search.simps [simp del]

definition regexp_exec :: "regexp \<Rightarrow> string \<Rightarrow> regexp_match option" where
  "regexp_exec r s = search r 0 s"

definition regexp_test :: "regexp \<Rightarrow> string \<Rightarrow> bool" where
  "regexp_test r s \<longleftrightarrow> regexp_exec r s \<noteq> None"

definition seqs :: "regexp list \<Rightarrow> regexp" where
  "seqs rs = foldr Seq rs Empty"

definition literal :: "string \<Rightarrow> regexp" where
  "literal w = seqs (map (\<lambda>c. Chars (\<lambda>d. d = c)) w)"

text \<open>
  \<^verbatim>\<open>/^\s*Architecture Note #((?:\d+(?:\.(?=\d)|)){1,8}):\s+([^\r\n$]*)/\<close>
\<close>

definition ARCHITECTURE_NOTE_REGEXP :: regexp where
  "ARCHITECTURE_NOTE_REGEXP = seqs
     [Bol,
      Rep 0 None (Chars is_space),
      literal ''Architecture Note #'',
      Capture 1
        (Rep 1 (Some 8)
          (Seq (Rep 1 None (Chars is_digit))
               (Alt (Seq (Chars (\<lambda>c. c = CHR ''.'')) (Lookahead (Chars is_digit))) Empty))),
      Chars (\<lambda>c. c = CHR '':''),
      Rep 1 None (Chars is_space),
      Capture 2 (Rep 0 None (Chars (\<lambda>c. c \<notin> set [CHR 0x0D, CHR 0x0A, CHR ''$''])))]"

text \<open>\<^verbatim>\<open>/#! (\/\w+)+ node/\<close>\<close>

definition SHEBANG_REGEXP :: regexp where
  "SHEBANG_REGEXP = seqs
     [literal ''#! '',
      Rep 1 None (Capture 1 (Seq (Chars (\<lambda>c. c = CHR ''/'')) (Rep 1 None (Chars is_word)))),
      literal '' node'']"

section \<open>Architecture notes\<close>

record position =
  line :: nat
  column :: nat

record location =
  loc_start :: position
  loc_end :: position

text \<open>The object pushed by \<^verbatim>\<open>visitComment\<close> in \<^verbatim>\<open>_extractArchitectureNotes\<close>.\<close>

record architectureNote =
  num :: string
  title :: string
  content :: string
  filePath :: string
  loc :: location

section \<open>Ordering: \<^verbatim>\<open>_compareArchitectureNotes\<close>\<close>

text \<open>\<^verbatim>\<open>x.num.split('.').map(n => parseInt(n, 10))\<close>\<close>

definition titleLevels :: "architectureNote \<Rightarrow> jsnum list" where
  "titleLevels x = map parseInt (split_on CHR ''.'' (num x))"

text \<open>
  The callback given to \<^verbatim>\<open>reduce\<close>. \<^verbatim>\<open>bTitleLevels[index]\<close> is \<^verbatim>\<open>undefined\<close>
  exactly when \<open>index\<close> is past the end of the array: its elements are numbers
  (\<open>NaN\<close> included), never \<^verbatim>\<open>undefined\<close>.
\<close>

definition compareLevel :: "jsnum list \<Rightarrow> int \<Rightarrow> jsnum \<Rightarrow> nat \<Rightarrow> int" where
  "compareLevel bTitleLevels curOrder curALevel index =
     (if 0 \<noteq> curOrder then curOrder
      else if length bTitleLevels \<le> index then 1
      else if js_gt curALevel (bTitleLevels ! index) then 1
      else if js_lt curALevel (bTitleLevels ! index) then - 1
      else 0)"

text \<open>\<^verbatim>\<open>Array.prototype.reduce\<close> with the index passed to the callback.\<close>

fun reduceLevels :: "jsnum list \<Rightarrow> int \<Rightarrow> jsnum list \<Rightarrow> nat \<Rightarrow> int" where
  "reduceLevels bTitleLevels curOrder [] index = curOrder"
| "reduceLevels bTitleLevels curOrder (curALevel # rest) index =
     reduceLevels bTitleLevels (compareLevel bTitleLevels curOrder curALevel index) rest (Suc index)"

definition compareArchitectureNotes :: "architectureNote \<Rightarrow> architectureNote \<Rightarrow> int" where
  "compareArchitectureNotes a b = reduceLevels (titleLevels b) 0 (titleLevels a) 0"

text \<open>A note that carries only a number, for statements about the ordering alone.\<close>

definition noteNumbered :: "string \<Rightarrow> architectureNote" where
  "noteNumbered n = \<lparr> num = n, title = [], content = [], filePath = [],
     loc = \<lparr> loc_start = \<lparr> line = 0, column = 0 \<rparr>, loc_end = \<lparr> line = 0, column = 0 \<rparr> \<rparr> \<rparr>"

section \<open>Errors and promises\<close>

text \<open>
  What \<^verbatim>\<open>YError.wrap(err, code, ...params)\<close> is given as parameters: a string, or
  the \<^verbatim>\<open>path\<close> module of Node that the file binds at its top.
\<close>

datatype param = PString string | PPathModule

text \<open>
  An error is one raised by a collaborator (a message), or a \<^verbatim>\<open>YError\<close> made by
  \<^verbatim>\<open>YError.wrap\<close>: the code and the parameters that \<^verbatim>\<open>wrap\<close> was given, and the
  error that it wraps. (The library may add the message of the wrapped error after
  the parameters given; that is left out.)
\<close>

datatype jserror = HostError string | YError string "param list" jserror

definition YError_wrap :: "jserror \<Rightarrow> string \<Rightarrow> param list \<Rightarrow> jserror" where
  "YError_wrap err errorCode params = YError errorCode params err"

primrec errorCode :: "jserror \<Rightarrow> string option" where
  "errorCode (HostError msg) = None"
| "errorCode (YError c ps e) = Some c"

primrec errorParams :: "jserror \<Rightarrow> param list" where
  "errorParams (HostError msg) = []"
| "errorParams (YError c ps e) = ps"

text \<open>
  A settled promise: \<open>Inl\<close> is a rejection, \<open>Inr\<close> a fulfilment. \<^verbatim>\<open>then\<close> skips a
  rejection, \<^verbatim>\<open>catch\<close> skips a fulfilment; a handler that throws rejects.
\<close>

type_synonym 'a promise = "jserror + 'a"

definition then_p :: "'a promise \<Rightarrow> ('a \<Rightarrow> 'b promise) \<Rightarrow> 'b promise" where
  "then_p p f = (case p of Inl err \<Rightarrow> Inl err | Inr v \<Rightarrow> f v)"

definition catch_p :: "'a promise \<Rightarrow> (jserror \<Rightarrow> 'a promise) \<Rightarrow> 'a promise" where
  "catch_p p h = (case p of Inl err \<Rightarrow> h err | Inr v \<Rightarrow> Inr v)"

text \<open>
  \<^verbatim>\<open>Promise.all\<close>: rejected as soon as one promise is, fulfilled with all the values
  otherwise. When several promises reject, the one that rejects first in time wins;
  the model takes the first in the list.
\<close>

fun promise_all :: "'a promise list \<Rightarrow> 'a list promise" where
  "promise_all [] = Inr []"
| "promise_all (p # ps) =
     (case p of
        Inl err \<Rightarrow> Inl err
      | Inr v \<Rightarrow> (case promise_all ps of Inl err \<Rightarrow> Inl err | Inr vs \<Rightarrow> Inr (v # vs)))"

section \<open>Collaborators\<close>

text \<open>A comment node as the visitor sees it: \<^verbatim>\<open>path.value.value\<close> and \<^verbatim>\<open>path.value.loc\<close>.\<close>

record comment =
  comment_value :: string
  comment_loc :: location

text \<open>The services that the dependency injection hands to \<^verbatim>\<open>jsArch\<close> (logging left out).\<close>

record services =
  EOL :: string
  glob :: "string \<Rightarrow> string list promise"
  readFileAsync :: "string \<Rightarrow> string promise"

text \<open>
  What the file takes from its platform rather than from its services:
  \<^verbatim>\<open>recast.parse\<close> followed by \<^verbatim>\<open>types.visit\<close>, as the sequence of comments visited
  (or the error thrown by the parser), \<^verbatim>\<open>Array.prototype.sort\<close>, and the working
  directory of the process, against which \<^verbatim>\<open>path.relative\<close> resolves relative paths.
\<close>

record platform =
  recast_comments :: "string \<Rightarrow> comment list promise"
  array_sort :: "(architectureNote \<Rightarrow> architectureNote \<Rightarrow> int) \<Rightarrow> architectureNote list
     \<Rightarrow> architectureNote list"
  process_cwd :: string

record options =
  cwd :: string
  patterns :: "string list"
  eol :: "string option"
  titleLevel :: "string option"
  base :: "string option"

definition TITLE_LEVEL :: string where
  "TITLE_LEVEL = ''#''"

definition BASE :: string where
  "BASE = ''.''"

section \<open>Extraction: \<^verbatim>\<open>_extractArchitectureNotes\<close>\<close>

definition stripShebang :: "string \<Rightarrow> string" where
  "stripShebang fileContent =
     (if regexp_test SHEBANG_REGEXP fileContent
      then ''// Shebang commented by jsarch: '' @ fileContent
      else fileContent)"

text \<open>
  \<^verbatim>\<open>visitComment\<close>: the notes pushed for one comment, none or one. Groups 1 and 2 of
  the pattern are in no alternative and no optional part, so a match sets both.
\<close>

definition visitComment :: "string \<Rightarrow> comment \<Rightarrow> architectureNote list" where
  "visitComment file c =
     (case regexp_exec ARCHITECTURE_NOTE_REGEXP (comment_value c) of
        None \<Rightarrow> []
      | Some matches \<Rightarrow>
          (case (groups matches 1, groups matches 2) of
             (Some m1, Some m2) \<Rightarrow>
               [\<lparr> num = m1,
                  title = trim m2,
                  content = trim (drop (length (whole matches)) (comment_value c)),
                  filePath = file,
                  loc = comment_loc c \<rparr>]
           | _ \<Rightarrow> []))"

text \<open>
  The promise chain of \<^verbatim>\<open>_extractArchitectureNotes\<close>: read, \<^verbatim>\<open>_stripShebang\<close>, the
  first \<^verbatim>\<open>catch\<close>, the parse and visit, the last \<^verbatim>\<open>catch\<close>. In the last \<^verbatim>\<open>catch\<close> the
  name \<^verbatim>\<open>path\<close> is the module required at the top of the file.
\<close>

definition extractArchitectureNotes ::
  "platform \<Rightarrow> services \<Rightarrow> string \<Rightarrow> architectureNote list promise" where
  "extractArchitectureNotes pf sv file =
     catch_p
       (then_p
          (catch_p
             (then_p (readFileAsync sv file) (\<lambda>fileContent. Inr (stripShebang fileContent)))
             (\<lambda>err. Inl (YError_wrap err ''E_FILE_FAILURE'' [PString file])))
          (\<lambda>fileContent.
             then_p (recast_comments pf fileContent)
               (\<lambda>comments. Inr (concat (map (visitComment file) comments)))))
       (\<lambda>err. Inl (YError_wrap err ''E_FILE_PARSE_FAILURE'' [PPathModule]))"

definition linearize :: "'a list list \<Rightarrow> 'a list" where
  "linearize bulks = foldl (\<lambda>array arrayBulk. array @ arrayBulk) [] bulks"

definition computePatterns :: "services \<Rightarrow> string list \<Rightarrow> string list promise" where
  "computePatterns sv pats =
     then_p
       (promise_all
          (map (\<lambda>pattern.
                  catch_p (glob sv pattern)
                    (\<lambda>err. Inl (YError_wrap err ''E_PATTERN_FAILURE'' [PString pattern])))
             pats))
       (\<lambda>bulks. Inr (linearize bulks))"

section \<open>Rendering\<close>

text \<open>\<^verbatim>\<open>Array.prototype.join\<close>\<close>

fun join :: "string \<Rightarrow> string list \<Rightarrow> string" where
  "join sep [] = []"
| "join sep [x] = x"
| "join sep (x # y # ys) = x @ sep @ join sep (y # ys)"

text \<open>
  \<^verbatim>\<open>path.resolve\<close> of one POSIX path, as its list of segments below the root: a
  relative path is taken from the working directory of the process, empty and
  \<^verbatim>\<open>.\<close> segments are dropped, and \<^verbatim>\<open>..\<close> removes the segment before it.
\<close>

fun normalizeSegments :: "string list \<Rightarrow> string list \<Rightarrow> string list" where
  "normalizeSegments acc [] = rev acc"
| "normalizeSegments acc (seg # segs) =
     (if seg = [] \<or> seg = ''.'' then normalizeSegments acc segs
      else if seg = ''..'' then normalizeSegments (tl acc) segs
      else normalizeSegments (seg # acc) segs)"

definition path_resolve :: "string \<Rightarrow> string \<Rightarrow> string list" where
  "path_resolve pcwd p =
     normalizeSegments []
       (split_on CHR ''/'' (if p \<noteq> [] \<and> hd p = CHR ''/'' then p else pcwd @ ''/'' @ p))"

fun dropCommon :: "string list \<Rightarrow> string list \<Rightarrow> string list \<times> string list" where
  "dropCommon (x # xs) (y # ys) = (if x = y then dropCommon xs ys else (x # xs, y # ys))"
| "dropCommon xs ys = (xs, ys)"

text \<open>
  \<^verbatim>\<open>path.relative(from, to)\<close> of the POSIX flavour: both paths are resolved, their
  common leading segments are dropped, and the result climbs out of what is left of
  \<open>from\<close> before it descends into what is left of \<open>to\<close>.
\<close>

definition path_relative :: "string \<Rightarrow> string \<Rightarrow> string \<Rightarrow> string" where
  "path_relative pcwd from to =
     (if from = to then []
      else case dropCommon (path_resolve pcwd from) (path_resolve pcwd to) of
        (up, down) \<Rightarrow> join ''/'' (map (\<lambda>_. ''..'') up @ down))"

text \<open>A line number converted to a string by \<^verbatim>\<open>+\<close>.\<close>

definition digit_char :: "nat \<Rightarrow> char" where
  "digit_char d = char_of (of_char CHR ''0'' + d)"

fun number_to_string :: "nat \<Rightarrow> string" where
  "number_to_string n =
     (if n < 10 then [digit_char n]
      else number_to_string (n div 10) @ [digit_char (n mod 10)])"

declare number_to_string.simps [simp del]

text \<open>The line of the link, inside the callback given to \<^verbatim>\<open>reduce\<close> in \<^verbatim>\<open>jsArch\<close>.\<close>

definition contextLink :: "platform \<Rightarrow> string \<Rightarrow> string \<Rightarrow> architectureNote \<Rightarrow> string" where
  "contextLink pf cwd' base' architectureNote =
     ''[See in context]('' @
       base' @ ''/'' @ path_relative (process_cwd pf) cwd' (filePath architectureNote) @
       ''#L'' @ number_to_string (line (loc_start (loc architectureNote))) @
       ''-L'' @ number_to_string (line (loc_end (loc architectureNote))) @
     '')''"

definition renderNote ::
  "platform \<Rightarrow> string \<Rightarrow> string \<Rightarrow> string \<Rightarrow> string \<Rightarrow> string \<Rightarrow> architectureNote \<Rightarrow> string" where
  "renderNote pf cwd' eol' titleLevel' base' content' architectureNote =
     content' @ eol' @ eol' @
     titleLevel' @ join [] (map (\<lambda>_. ''#'') (split_on CHR ''.'' (num architectureNote))) @
     '' '' @ title architectureNote @ eol' @ eol' @
     content architectureNote @ eol' @ eol' @
     contextLink pf cwd' base' architectureNote @ eol' @ eol'"

text \<open>
  \<^verbatim>\<open>jsArch\<close>. A default parameter applies when the option is absent;
  \<^verbatim>\<open>eol || EOL\<close> falls back when the option is absent or the empty string.
\<close>

definition jsArch :: "platform \<Rightarrow> services \<Rightarrow> options \<Rightarrow> string promise" where
  "jsArch pf sv opts =
     (let titleLevel' = (case titleLevel opts of None \<Rightarrow> TITLE_LEVEL | Some t \<Rightarrow> t);
          base' = (case base opts of None \<Rightarrow> BASE | Some b \<Rightarrow> b);
          eol' = (case eol opts of None \<Rightarrow> EOL sv | Some e \<Rightarrow> if e = [] then EOL sv else e)
      in
        then_p
          (then_p
             (then_p
                (then_p (computePatterns sv (patterns opts))
                   (\<lambda>files. promise_all (map (extractArchitectureNotes pf sv) files)))
                (\<lambda>bulks. Inr (linearize bulks)))
             (\<lambda>architectureNotes.
                Inr (foldl (renderNote pf (cwd opts) eol' titleLevel' base') []
                      (array_sort pf compareArchitectureNotes architectureNotes))))
          (\<lambda>content'.
             if content' \<noteq> []
             then Inr (titleLevel' @ '' Architecture Notes'' @ eol' @ eol' @ content')
             else Inr content'))"

section \<open>The sort of the host\<close>

text \<open>
  \<^verbatim>\<open>Array.prototype.sort\<close> as V8 implements it from version 7.0 on (Node 11 and
  later; the package asks for Node 8.12.0 or later), for an array of fewer than 64
  elements. There the minimal run length is the length of the array:
  \<^verbatim>\<open>CountAndMakeRun\<close> finds the run that starts the array, \<^verbatim>\<open>BinaryInsertionSort\<close>
  inserts the elements after it, and the merge phase has one run and does nothing.
  Longer arrays are merged, which is not modelled: the result is \<open>None\<close>.

  \<^verbatim>\<open>CountAndMakeRun\<close> asks \<^verbatim>\<open>comparefn(current, previous)\<close>: a negative answer
  between the first two elements makes the run a descending one, which is reversed.
\<close>

fun runExtent :: "('a \<Rightarrow> 'a \<Rightarrow> int) \<Rightarrow> bool \<Rightarrow> 'a \<Rightarrow> 'a list \<Rightarrow> nat" where
  "runExtent comparefn isDescending previousElement [] = 0"
| "runExtent comparefn isDescending previousElement (currentElement # rest) =
     (let order = comparefn currentElement previousElement
      in if (if isDescending then order \<ge> 0 else order < 0) then 0
         else Suc (runExtent comparefn isDescending currentElement rest))"

definition countAndMakeRun :: "('a \<Rightarrow> 'a \<Rightarrow> int) \<Rightarrow> 'a list \<Rightarrow> nat \<times> 'a list" where
  "countAndMakeRun comparefn workArray =
     (case workArray of
        elementHigh # elementLow # rest \<Rightarrow>
          (let isDescending = comparefn elementLow elementHigh < 0;
               runLength = 2 + runExtent comparefn isDescending elementLow rest
           in (runLength,
               if isDescending then rev (take runLength workArray) @ drop runLength workArray
               else workArray))
      | _ \<Rightarrow> (length workArray, workArray))"

text \<open>
  The search of \<^verbatim>\<open>BinaryInsertionSort\<close> for the place of the pivot among the
  elements before it: \<^verbatim>\<open>comparefn(pivot, workArray[mid])\<close> negative goes left, zero
  or positive goes right.
\<close>

function binarySearch :: "('a \<Rightarrow> 'a \<Rightarrow> int) \<Rightarrow> 'a \<Rightarrow> 'a list \<Rightarrow> nat \<Rightarrow> nat \<Rightarrow> nat" where
  "binarySearch comparefn pivot workArray left right =
     (if left < right then
        let mid = left + (right - left) div 2
        in if comparefn pivot (workArray ! mid) < 0
           then binarySearch comparefn pivot workArray left mid
           else binarySearch comparefn pivot workArray (mid + 1) right
      else left)"
  by pat_completeness auto
termination
  by (relation "measure (\<lambda>(comparefn, pivot, workArray, left, right). right - left)") auto

declare binarySearch.simps [simp del]

function binaryInsertionSort :: "('a \<Rightarrow> 'a \<Rightarrow> int) \<Rightarrow> 'a list \<Rightarrow> nat \<Rightarrow> nat \<Rightarrow> 'a list" where
  "binaryInsertionSort comparefn workArray start high =
     (if start < high \<and> high \<le> length workArray then
        let pivot = workArray ! start;
            left = binarySearch comparefn pivot workArray 0 start
        in binaryInsertionSort comparefn
             (take left workArray @ [pivot] @ take (start - left) (drop left workArray)
                @ drop (Suc start) workArray)
             (Suc start) high
      else workArray)"
  by pat_completeness auto
termination
  by (relation "measure (\<lambda>(comparefn, workArray, start, high). high - start)") auto

declare binaryInsertionSort.simps [simp del]

definition arraySort_v8 :: "('a \<Rightarrow> 'a \<Rightarrow> int) \<Rightarrow> 'a list \<Rightarrow> 'a list option" where
  "arraySort_v8 comparefn array =
     (if length array < 2 then Some array
      else if 64 \<le> length array then None
      else case countAndMakeRun comparefn array of
        (runLength, workArray) \<Rightarrow>
          Some (if runLength < length array
                then binaryInsertionSort comparefn workArray runLength (length array)
                else workArray))"

section \<open>Properties of the ordering\<close>

lemma js_gt_refl [simp]: "\<not> js_gt x x"
  by (cases x) simp_all

lemma js_lt_refl [simp]: "\<not> js_lt x x"
  by (cases x) simp_all

lemma reduceLevels_decided:
  "curOrder \<noteq> 0 \<Longrightarrow> reduceLevels bs curOrder xs i = curOrder"
  by (induction xs arbitrary: i) (simp_all add: compareLevel_def)

lemma reduceLevels_common_prefix:
  "reduceLevels (pre @ xs @ ys) 0 xs (length pre) = 0"
proof (induction xs arbitrary: pre)
  case Nil
  show ?case by simp
next
  case (Cons x xs)
  have step: "compareLevel (pre @ (x # xs) @ ys) 0 x (length pre) = 0"
    by (simp add: compareLevel_def)
  have "reduceLevels ((pre @ [x]) @ xs @ ys) 0 xs (length (pre @ [x])) = 0"
    by (rule Cons.IH)
  with step show ?case by simp
qed

lemma reduceLevels_longer:
  "ys \<noteq> [] \<Longrightarrow> reduceLevels (pre @ xs) 0 (xs @ ys) (length pre) = 1"
proof (induction xs arbitrary: pre)
  case Nil
  then obtain y ys' where ys: "ys = y # ys'" by (cases ys) auto
  have "compareLevel pre 0 y (length pre) = 1"
    by (simp add: compareLevel_def)
  then show ?case by (simp add: ys reduceLevels_decided)
next
  case (Cons x xs)
  have step: "compareLevel (pre @ x # xs) 0 x (length pre) = 0"
    by (simp add: compareLevel_def)
  have "reduceLevels ((pre @ [x]) @ xs) 0 (xs @ ys) (length (pre @ [x])) = 1"
    using Cons.prems by (rule Cons.IH)
  with step show ?case by simp
qed

lemma titleLevels_1: "titleLevels (noteNumbered ''1'') = [Num 1]"
  by (simp add: titleLevels_def noteNumbered_def parseInt_def is_space_def is_digit_def
      char_between_def digits_val_def digit_val_def)

lemma titleLevels_1_1: "titleLevels (noteNumbered ''1.1'') = [Num 1, Num 1]"
  by (simp add: titleLevels_def noteNumbered_def parseInt_def is_space_def is_digit_def
      char_between_def digits_val_def digit_val_def)

text \<open>
  Claim C1. When the id of note \<open>a\<close> (its parsed title levels) is a strict proper
  prefix of the id of note \<open>b\<close>, comparing \<open>a\<close> with \<open>b\<close> gives 0 while comparing
  \<open>b\<close> with \<open>a\<close> gives +1: on such pairs the comparator is not antisymmetric.
\<close>

theorem compare_prefix_asymmetric:
  assumes "titleLevels b = titleLevels a @ ys" and "ys \<noteq> []"
  shows "compareArchitectureNotes a b = 0 \<and> compareArchitectureNotes b a = 1
    \<and> compareArchitectureNotes a b \<noteq> - compareArchitectureNotes b a"
proof -
  have ab: "compareArchitectureNotes a b = 0"
    using reduceLevels_common_prefix [of "[]" "titleLevels a" ys] assms(1)
    by (simp add: compareArchitectureNotes_def)
  have ba: "compareArchitectureNotes b a = 1"
    using reduceLevels_longer [OF assms(2), of "[]" "titleLevels a"] assms(1)
    by (simp add: compareArchitectureNotes_def)
  from ab ba show ?thesis by simp
qed

theorem compare_prefix_asymmetric_witness:
  "titleLevels (noteNumbered ''1.1'') = titleLevels (noteNumbered ''1'') @ [Num 1]
   \<and> compareArchitectureNotes (noteNumbered ''1'') (noteNumbered ''1.1'') = 0
   \<and> compareArchitectureNotes (noteNumbered ''1.1'') (noteNumbered ''1'') = 1"
proof -
  have h: "titleLevels (noteNumbered ''1.1'') = titleLevels (noteNumbered ''1'') @ [Num 1]"
    by (simp add: titleLevels_1 titleLevels_1_1)
  show ?thesis
    using h compare_prefix_asymmetric [OF h] by simp
qed

text \<open>
  Claim C2. A note numbered "1" is compared with a note numbered "1.1": the
  comparator answers 0 (a tie), not -1.
\<close>

theorem compare_1_with_1_1:
  "compareArchitectureNotes (noteNumbered ''1'') (noteNumbered ''1.1'') = 0
   \<and> compareArchitectureNotes (noteNumbered ''1'') (noteNumbered ''1.1'') \<noteq> - 1"
  by (simp add: compareArchitectureNotes_def titleLevels_1 titleLevels_1_1 compareLevel_def)

section \<open>Properties of the extraction\<close>

lemma extract_read_failure:
  "readFileAsync sv file = Inl err \<Longrightarrow>
   extractArchitectureNotes pf sv file =
     Inl (YError ''E_FILE_PARSE_FAILURE'' [PPathModule]
           (YError ''E_FILE_FAILURE'' [PString file] err))"
  by (simp add: extractArchitectureNotes_def then_p_def catch_p_def YError_wrap_def)

lemma extract_parse_failure:
  "readFileAsync sv file = Inr fileContent \<Longrightarrow>
   recast_comments pf (stripShebang fileContent) = Inl err \<Longrightarrow>
   extractArchitectureNotes pf sv file = Inl (YError ''E_FILE_PARSE_FAILURE'' [PPathModule] err)"
  by (simp add: extractArchitectureNotes_def then_p_def catch_p_def YError_wrap_def)

text \<open>
  Claim C3. Two files are found, the first is read and the read of the second,
  \<^verbatim>\<open>/repo/a.js\<close>, fails. The run is rejected and returns no note, but the error that
  rejects it has the code \<^verbatim>\<open>E_FILE_PARSE_FAILURE\<close> and the \<^verbatim>\<open>path\<close> module as its
  parameter: the last \<^verbatim>\<open>catch\<close> of the chain wraps the \<^verbatim>\<open>E_FILE_FAILURE\<close> error, which
  carries the path, once more.
\<close>

theorem read_failure_run:
  "jsArch
     \<lparr> recast_comments = (\<lambda>s. Inr []), array_sort = (\<lambda>comparefn xs. xs),
       process_cwd = ''/repo'' \<rparr>
     \<lparr> EOL = [CHR 0x0A],
       glob = (\<lambda>p. Inr [''/repo/b.js'', ''/repo/a.js'']),
       readFileAsync = (\<lambda>f. if f = ''/repo/a.js'' then Inl (HostError ''ENOENT'') else Inr []) \<rparr>
     \<lparr> cwd = ''/repo'', patterns = [''*.js''], eol = None, titleLevel = None, base = None \<rparr>
   = Inl (YError ''E_FILE_PARSE_FAILURE'' [PPathModule]
            (YError ''E_FILE_FAILURE'' [PString ''/repo/a.js''] (HostError ''ENOENT'')))"
  by (simp add: jsArch_def computePatterns_def linearize_def then_p_def catch_p_def
      extractArchitectureNotes_def YError_wrap_def stripShebang_def)

text \<open>
  Claim C4. A file is read and the parser rejects its content. The extraction fails
  with the code \<^verbatim>\<open>E_FILE_PARSE_FAILURE\<close> and wraps the error of the parser, but the
  parameter of the error is the \<^verbatim>\<open>path\<close> module, not the path of the file.
\<close>

theorem parse_failure_params:
  "extractArchitectureNotes
     \<lparr> recast_comments = (\<lambda>s. Inl (HostError ''Unexpected token'')),
       array_sort = (\<lambda>comparefn xs. xs), process_cwd = ''/repo'' \<rparr>
     \<lparr> EOL = [CHR 0x0A], glob = (\<lambda>p. Inr []), readFileAsync = (\<lambda>f. Inr ''var = ;'') \<rparr>
     ''/repo/a.js''
   = Inl (YError ''E_FILE_PARSE_FAILURE'' [PPathModule] (HostError ''Unexpected token''))"
  by (simp add: extractArchitectureNotes_def then_p_def catch_p_def YError_wrap_def)

text \<open>
  Claim C6. The comment text "Architecture Note #1.2: Title", two newlines,
  "Body text." gives one note: number "1.2" (levels 1 and 2), title "Title" and
  body "Body text.".
\<close>

theorem note_parser_example:
  "visitComment file
     \<lparr> comment_value = ''Architecture Note #1.2: Title'' @ [CHR 0x0A, CHR 0x0A] @ ''Body text.'',
       comment_loc = l \<rparr>
   = [\<lparr> num = ''1.2'', title = ''Title'', content = ''Body text.'', filePath = file, loc = l \<rparr>]
   \<and> titleLevels \<lparr> num = ''1.2'', title = ''Title'', content = ''Body text.'', filePath = file,
        loc = l \<rparr> = [Num 1, Num 2]"
  by code_simp

text \<open>
  Claim C7. In the comment text "Architecture Note #1: Cost in $ per unit", two
  newlines, "Body." the title stops before the dollar sign: the title is "Cost in",
  and the body starts with the rest of the marker line.
\<close>

theorem title_stops_at_dollar:
  "visitComment file
     \<lparr> comment_value = ''Architecture Note #1: Cost in $ per unit'' @ [CHR 0x0A, CHR 0x0A] @ ''Body.'',
       comment_loc = l \<rparr>
   = [\<lparr> num = ''1'', title = ''Cost in'',
        content = ''$ per unit'' @ [CHR 0x0A, CHR 0x0A] @ ''Body.'', filePath = file, loc = l \<rparr>]"
  by code_simp

section \<open>Properties of the shebang pattern\<close>


lemma remaining_advance [simp]: "remaining (advance x) = tl (remaining x)"
  by (simp add: advance_def)

lemma literal_Nil [simp]: "literal [] = Empty"
  by (simp add: literal_def seqs_def)

lemma literal_Cons [simp]: "literal (c # w) = Seq (Chars (\<lambda>d. d = c)) (literal w)"
  by (simp add: literal_def seqs_def)

lemma matcher_literal:
  "remaining x = w @ v \<Longrightarrow> \<exists>y\<in>set (matcher (literal w) x). remaining y = v"
proof (induction w arbitrary: x)
  case Nil
  then show ?case by simp
next
  case (Cons c w)
  from Cons.prems have "remaining (advance x) = w @ v" by simp
  from Cons.IH [OF this] obtain y
    where "y \<in> set (matcher (literal w) (advance x))" and "remaining y = v" by blast
  with Cons.prems show ?case by auto
qed

lemma matcher_Seq_intro:
  "y \<in> set (matcher r1 x) \<Longrightarrow> z \<in> set (matcher r2 y) \<Longrightarrow> z \<in> set (matcher (Seq r1 r2) x)"
  by auto

lemma repeatMatcher_exit: "x \<in> set (repeatMatcher m 0 mx x)"
  by (subst repeatMatcher.simps) (simp add: Let_def)

lemma repeatMatcher_again:
  assumes "y \<in> set (m x)" and "length (remaining y) < length (remaining x)"
    and "z \<in> set (repeatMatcher m (mn - 1) None y)"
  shows "z \<in> set (repeatMatcher m mn None x)"
  using assms by (subst repeatMatcher.simps) (auto simp add: Let_def)

lemma repeat_chars:
  "\<forall>c\<in>set w. P c \<Longrightarrow> remaining x = w @ v \<Longrightarrow> mn \<le> length w \<Longrightarrow> mn \<le> 1 \<Longrightarrow>
   \<exists>y\<in>set (repeatMatcher (matcher (Chars P)) mn None x). remaining y = v"
proof (induction w arbitrary: x mn)
  case Nil
  then have "mn = 0" and "remaining x = v" by simp_all
  then show ?case using repeatMatcher_exit [of x "matcher (Chars P)" None] by blast
next
  case (Cons c w)
  have adv: "advance x \<in> set (matcher (Chars P) x)"
    using Cons.prems by simp
  have shorter: "length (remaining (advance x)) < length (remaining x)"
    using Cons.prems by simp
  have "\<exists>y\<in>set (repeatMatcher (matcher (Chars P)) 0 None (advance x)). remaining y = v"
    using Cons.prems by (intro Cons.IH) simp_all
  then obtain y where y: "y \<in> set (repeatMatcher (matcher (Chars P)) 0 None (advance x))"
    and "remaining y = v" by blast
  moreover have "mn - 1 = 0" using Cons.prems by simp
  ultimately show ?case
    using repeatMatcher_again [where m = "matcher (Chars P)" and x = x and y = "advance x"
        and z = y and mn = mn, OF adv shorter] by metis
qed

lemma matcher_group:
  assumes "w \<noteq> []" and "\<forall>c\<in>set w. is_word c" and "remaining x = CHR ''/'' # w @ v"
  shows "\<exists>y\<in>set (matcher (Capture 1 (Seq (Chars (\<lambda>c. c = CHR ''/'')) (Rep 1 None (Chars is_word)))) x).
           remaining y = v"
proof -
  have "remaining (advance x) = w @ v" using assms(3) by simp
  moreover have "1 \<le> length w" using assms(1) by (cases w) simp_all
  ultimately obtain y where "y \<in> set (repeatMatcher (matcher (Chars is_word)) 1 None (advance x))"
    and "remaining y = v"
    using repeat_chars [OF assms(2), of "advance x" v 1] by auto
  with assms(3) show ?thesis by (auto intro!: bexI [of _ y])
qed


lemma repeat_groups:
  assumes "\<forall>w\<in>set (w0 # ws). w \<noteq> [] \<and> (\<forall>c\<in>set w. is_word c)"
    and "remaining x = concat (map (\<lambda>w. CHR ''/'' # w) (w0 # ws)) @ v"
    and "mn \<le> 1"
  shows "\<exists>y\<in>set (repeatMatcher
            (matcher (Capture 1 (Seq (Chars (\<lambda>c. c = CHR ''/'')) (Rep 1 None (Chars is_word)))))
            mn None x). remaining y = v"
  using assms
proof (induction ws arbitrary: w0 x mn)
  case Nil
  let ?g = "Capture 1 (Seq (Chars (\<lambda>c. c = CHR ''/'')) (Rep 1 None (Chars is_word)))"
  from Nil.prems have "w0 \<noteq> []" and "\<forall>c\<in>set w0. is_word c"
    and "remaining x = CHR ''/'' # w0 @ v" by simp_all
  from matcher_group [OF this] obtain y where y: "y \<in> set (matcher ?g x)" and r: "remaining y = v"
    by blast
  have shorter: "length (remaining y) < length (remaining x)"
    using r \<open>remaining x = CHR ''/'' # w0 @ v\<close> by simp
  have "y \<in> set (repeatMatcher (matcher ?g) (mn - 1) None y)"
    using Nil.prems(3) repeatMatcher_exit [of y "matcher ?g" None] by simp
  from repeatMatcher_again [where m = "matcher ?g" and x = x and y = y and z = y and mn = mn,
      OF y shorter this] r
  show ?case by blast
next
  case (Cons w1 ws)
  let ?g = "Capture 1 (Seq (Chars (\<lambda>c. c = CHR ''/'')) (Rep 1 None (Chars is_word)))"
  let ?rest = "concat (map (\<lambda>w. CHR ''/'' # w) (w1 # ws)) @ v"
  from Cons.prems have "w0 \<noteq> []" and "\<forall>c\<in>set w0. is_word c"
    and "remaining x = CHR ''/'' # w0 @ ?rest" by simp_all
  from matcher_group [OF this] obtain y where y: "y \<in> set (matcher ?g x)"
    and r: "remaining y = ?rest" by blast
  have shorter: "length (remaining y) < length (remaining x)"
    using r \<open>remaining x = CHR ''/'' # w0 @ ?rest\<close> by simp
  have "\<exists>z\<in>set (repeatMatcher (matcher ?g) (mn - 1) None y). remaining z = v"
    using Cons.prems(1,3) r by (intro Cons.IH) simp_all
  then obtain z where z: "z \<in> set (repeatMatcher (matcher ?g) (mn - 1) None y)"
    and rz: "remaining z = v" by blast
  from repeatMatcher_again [where m = "matcher ?g" and x = x and y = y and z = z and mn = mn,
      OF y shorter z] rz
  show ?case by blast
qed

lemma SHEBANG_REGEXP_unfold:
  "SHEBANG_REGEXP =
     Seq (literal ''#! '')
       (Seq (Rep 1 None (Capture 1 (Seq (Chars (\<lambda>c. c = CHR ''/'')) (Rep 1 None (Chars is_word)))))
          (Seq (literal '' node'') Empty))"
  by (simp add: SHEBANG_REGEXP_def seqs_def)

lemma matcher_SHEBANG:
  assumes "ws \<noteq> []" and "\<forall>w\<in>set ws. w \<noteq> [] \<and> (\<forall>c\<in>set w. is_word c)"
    and "remaining x = ''#! '' @ concat (map (\<lambda>w. CHR ''/'' # w) ws) @ '' node'' @ v"
  shows "matcher SHEBANG_REGEXP x \<noteq> []"
proof -
  let ?g = "Capture 1 (Seq (Chars (\<lambda>c. c = CHR ''/'')) (Rep 1 None (Chars is_word)))"
  let ?groups = "concat (map (\<lambda>w. CHR ''/'' # w) ws)"
  from assms(1) obtain w0 ws' where ws: "ws = w0 # ws'" by (cases ws) auto
  from matcher_literal [of x "''#! ''" "?groups @ '' node'' @ v"] assms(3)
  obtain y1 where y1: "y1 \<in> set (matcher (literal ''#! '') x)"
    and r1: "remaining y1 = ?groups @ '' node'' @ v" by auto
  from repeat_groups [of w0 ws' y1 "'' node'' @ v" 1] assms(2) r1 ws
  obtain y2 where y2: "y2 \<in> set (matcher (Rep 1 None ?g) y1)"
    and r2: "remaining y2 = '' node'' @ v" by auto
  from matcher_literal [of y2 "'' node''" v] r2
  obtain y3 where y3: "y3 \<in> set (matcher (literal '' node'') y2)" by auto
  have "y3 \<in> set (matcher (Seq (literal '' node'') Empty) y2)"
    using y3 by (intro matcher_Seq_intro [of y3]) simp_all
  from matcher_Seq_intro [OF y2 this] have "y3 \<in> set (matcher (Seq (Rep 1 None ?g) (Seq (literal '' node'') Empty)) y1)" .
  from matcher_Seq_intro [OF y1 this] have "y3 \<in> set (matcher SHEBANG_REGEXP x)"
    by (simp only: SHEBANG_REGEXP_unfold)
  then show ?thesis by auto
qed

lemma search_found:
  "matcher r \<lparr> captures = Map.empty, endIndex = i + length pre, remaining = s \<rparr> \<noteq> [] \<Longrightarrow>
   search r i (pre @ s) \<noteq> None"
proof (induction pre arbitrary: i)
  case Nil
  then show ?case by (subst search.simps) (auto split: list.splits)
next
  case (Cons p pre)
  then have "search r (Suc i) (pre @ s) \<noteq> None" by simp
  then show ?case by (subst search.simps) (auto split: list.splits)
qed

text \<open>
  Claim C10. Whenever some part of the content is \<^verbatim>\<open>#!\<close>, a space, one or more
  groups of a slash and word characters, a space and \<^verbatim>\<open>node\<close>, wherever that part
  is, the whole content is prefixed with \<^verbatim>\<open>// Shebang commented by jsarch: \<close>; the
  first line of the result is that prefix followed by the first line of the content.
\<close>

theorem stripShebang_anywhere:
  assumes "ws \<noteq> []" and "\<forall>w\<in>set ws. w \<noteq> [] \<and> (\<forall>c\<in>set w. is_word c)"
    and "fileContent = before @ ''#! '' @ concat (map (\<lambda>w. CHR ''/'' # w) ws) @ '' node'' @ after"
  shows "stripShebang fileContent = ''// Shebang commented by jsarch: '' @ fileContent
    \<and> takeWhile (\<lambda>c. c \<noteq> CHR 0x0A) (stripShebang fileContent)
        = ''// Shebang commented by jsarch: '' @ takeWhile (\<lambda>c. c \<noteq> CHR 0x0A) fileContent"
proof -
  let ?m = "''#! '' @ concat (map (\<lambda>w. CHR ''/'' # w) ws) @ '' node'' @ after"
  have "matcher SHEBANG_REGEXP \<lparr> captures = Map.empty, endIndex = 0 + length before, remaining = ?m \<rparr> \<noteq> []"
    using assms(1,2) by (rule matcher_SHEBANG) simp
  then have "search SHEBANG_REGEXP 0 (before @ ?m) \<noteq> None"
    by (rule search_found)
  then have "regexp_test SHEBANG_REGEXP fileContent"
    by (simp add: regexp_test_def regexp_exec_def assms(3))
  then have strip: "stripShebang fileContent = ''// Shebang commented by jsarch: '' @ fileContent"
    by (simp add: stripShebang_def)
  show ?thesis by (simp add: strip)
qed

theorem stripShebang_anywhere_witness:
  "stripShebang (''var x = 1;'' @ [CHR 0x0A] @ ''// run with #! /usr/bin/env node please'')
     = ''// Shebang commented by jsarch: '' @
       (''var x = 1;'' @ [CHR 0x0A] @ ''// run with #! /usr/bin/env node please'')
   \<and> takeWhile (\<lambda>c. c \<noteq> CHR 0x0A)
        (stripShebang (''var x = 1;'' @ [CHR 0x0A] @ ''// run with #! /usr/bin/env node please''))
     = ''// Shebang commented by jsarch: var x = 1;''"
proof -
  have h1: "[''usr'', ''bin'', ''env''] \<noteq> []" by simp
  have h2: "\<forall>w\<in>set [''usr'', ''bin'', ''env'']. w \<noteq> [] \<and> (\<forall>c\<in>set w. is_word c)"
    by (simp add: is_word_def is_digit_def char_between_def)
  have h3: "''var x = 1;'' @ [CHR 0x0A] @ ''// run with #! /usr/bin/env node please''
    = (''var x = 1;'' @ [CHR 0x0A] @ ''// run with '') @ ''#! '' @
      concat (map (\<lambda>w. CHR ''/'' # w) [''usr'', ''bin'', ''env'']) @ '' node'' @ '' please''"
    by simp
  show ?thesis
    using stripShebang_anywhere [OF h1 h2 h3] by simp
qed

subsection \<open>A shebang on the first line\<close>

text \<open>
  A content that starts with \<^verbatim>\<open>#! /usr/bin/env node\<close> is prefixed, and the text of the
  line comment that the prefix makes of its first line is not the text of a note.
  What the parser does with the prefixed content is the parser's.
\<close>

lemma stripShebang_leading:
  "stripShebang (''#! /usr/bin/env node'' @ rest)
     = ''// Shebang commented by jsarch: '' @ ''#! /usr/bin/env node'' @ rest"
proof -
  have words: "\<forall>w\<in>set [''usr'', ''bin'', ''env'']. w \<noteq> [] \<and> (\<forall>c\<in>set w. is_word c)"
    by (simp add: is_word_def is_digit_def char_between_def)
  have "matcher SHEBANG_REGEXP
          \<lparr> captures = Map.empty, endIndex = 0 + length ([] :: string),
            remaining = ''#! /usr/bin/env node'' @ rest \<rparr> \<noteq> []"
    by (rule matcher_SHEBANG [where ws = "[''usr'', ''bin'', ''env'']" and v = rest, OF _ words])
      simp_all
  then have "search SHEBANG_REGEXP 0 ([] @ ''#! /usr/bin/env node'' @ rest) \<noteq> None"
    by (rule search_found)
  then show ?thesis
    by (simp add: stripShebang_def regexp_test_def regexp_exec_def)
qed

lemma search_Bol_later: "0 < i \<Longrightarrow> search (Seq Bol r) i s = None"
proof (induction s arbitrary: i)
  case Nil
  then show ?case by (subst search.simps) simp
next
  case (Cons c s)
  then have "search (Seq Bol r) (Suc i) s = None" by simp
  with Cons.prems show ?case by (subst search.simps) simp
qed

lemma ARCHITECTURE_NOTE_REGEXP_unfold:
  "\<exists>r1 r2. ARCHITECTURE_NOTE_REGEXP =
     Seq Bol (Seq (Rep 0 None (Chars is_space)) (Seq (Seq (Chars (\<lambda>d. d = CHR ''A'')) r1) r2))"
  by (simp add: ARCHITECTURE_NOTE_REGEXP_def seqs_def)

lemma leading_spaces_then_other:
  assumes "remaining x = CHR '' '' # c # t" and "\<not> is_space c"
  shows "repeatMatcher (matcher (Chars is_space)) 0 None x = [advance x, x]"
proof -
  have sp: "is_space CHR '' ''" by (simp add: is_space_def)
  have inner: "repeatMatcher (matcher (Chars is_space)) 0 None (advance x) = [advance x]"
    using assms by (subst repeatMatcher.simps) (simp add: Let_def)
  show ?thesis
    using assms sp inner by (subst repeatMatcher.simps) (simp add: Let_def)
qed

lemma shebang_comment_no_match:
  "regexp_exec ARCHITECTURE_NOTE_REGEXP ('' Shebang commented by jsarch: '' @ t) = None"
proof -
  obtain r1 r2 where r: "ARCHITECTURE_NOTE_REGEXP =
     Seq Bol (Seq (Rep 0 None (Chars is_space)) (Seq (Seq (Chars (\<lambda>d. d = CHR ''A'')) r1) r2))"
    using ARCHITECTURE_NOTE_REGEXP_unfold by blast
  let ?s = "'' Shebang commented by jsarch: '' @ t"
  let ?x = "\<lparr> captures = Map.empty, endIndex = 0, remaining = ?s \<rparr>"
  have S: "\<not> is_space CHR ''S''" by (simp add: is_space_def)
  have "repeatMatcher (matcher (Chars is_space)) 0 None ?x = [advance ?x, ?x]"
    by (rule leading_spaces_then_other [OF _ S]) simp
  then have "matcher ARCHITECTURE_NOTE_REGEXP ?x = []"
    by (simp add: r)
  moreover have "search ARCHITECTURE_NOTE_REGEXP (Suc 0) (tl ?s) = None"
    unfolding r by (rule search_Bol_later) simp
  ultimately show ?thesis
    unfolding regexp_exec_def by (subst search.simps) simp
qed

lemma shebang_comment_no_note:
  "visitComment file
     \<lparr> comment_value = '' Shebang commented by jsarch: '' @ t, comment_loc = l \<rparr> = []"
  by (simp add: visitComment_def shebang_comment_no_match del: append.simps)

section \<open>Properties of the rendering\<close>

lemma contextLink_value:
  "contextLink pf ''/repo'' ''.''
     \<lparr> num = n, title = t, content = c, filePath = ''/repo/src/a.js'',
       loc = \<lparr> loc_start = \<lparr> line = 10, column = c1 \<rparr>, loc_end = \<lparr> line = 14, column = c2 \<rparr> \<rparr> \<rparr>
   = ''[See in context](./src/a.js#L10-L14)''"
  by code_simp

text \<open>
  Claim C9. For a note found in \<^verbatim>\<open>/repo/src/a.js\<close> from line 10 to line 14, with the
  working directory \<^verbatim>\<open>/repo\<close> and the base \<^verbatim>\<open>.\<close>, the line of the link that is
  rendered is \<^verbatim>\<open>[See in context](./src/a.js#L10-L14)\<close>: the callback of \<^verbatim>\<open>reduce\<close>
  appends the heading, the body and then exactly that string between line ends,
  whatever the number, title and body of the note, the line end, the title level and
  the content rendered so far; and a run of \<^verbatim>\<open>jsArch\<close> that finds this one note, with
  a newline as line end, returns the document whose ninth line is that string.
\<close>

theorem context_link_rendered:
  "renderNote pf ''/repo'' eol' titleLevel' ''.'' content'
     \<lparr> num = n, title = t, content = c, filePath = ''/repo/src/a.js'',
       loc = \<lparr> loc_start = \<lparr> line = 10, column = c1 \<rparr>, loc_end = \<lparr> line = 14, column = c2 \<rparr> \<rparr> \<rparr>
   = content' @ eol' @ eol' @
     titleLevel' @ join [] (map (\<lambda>_. ''#'') (split_on CHR ''.'' n)) @ '' '' @ t @ eol' @ eol' @
     c @ eol' @ eol' @
     ''[See in context](./src/a.js#L10-L14)'' @ eol' @ eol'
   \<and> jsArch
     \<lparr> recast_comments = (\<lambda>s. Inr
         [\<lparr> comment_value = '' Architecture Note #1.2: Title'' @ [CHR 0x0A, CHR 0x0A] @ ''Body text.'',
            comment_loc = \<lparr> loc_start = \<lparr> line = 10, column = 0 \<rparr>,
                            loc_end = \<lparr> line = 14, column = 2 \<rparr> \<rparr> \<rparr>]),
       array_sort = (\<lambda>comparefn xs. case arraySort_v8 comparefn xs of None \<Rightarrow> xs | Some ys \<Rightarrow> ys),
       process_cwd = ''/repo'' \<rparr>
     \<lparr> EOL = [CHR 0x0A],
       glob = (\<lambda>p. Inr [''/repo/src/a.js'']),
       readFileAsync = (\<lambda>f. Inr ''/* a note */'') \<rparr>
     \<lparr> cwd = ''/repo'', patterns = [''src/*.js''], eol = None, titleLevel = None, base = Some ''.'' \<rparr>
   = Inr (join [CHR 0x0A]
       [''# Architecture Notes'', [], [], [],
        ''### Title'', [],
        ''Body text.'', [],
        ''[See in context](./src/a.js#L10-L14)'', [], []])"
proof (rule conjI)
  show "renderNote pf ''/repo'' eol' titleLevel' ''.'' content'
     \<lparr> num = n, title = t, content = c, filePath = ''/repo/src/a.js'',
       loc = \<lparr> loc_start = \<lparr> line = 10, column = c1 \<rparr>, loc_end = \<lparr> line = 14, column = c2 \<rparr> \<rparr> \<rparr>
   = content' @ eol' @ eol' @
     titleLevel' @ join [] (map (\<lambda>_. ''#'') (split_on CHR ''.'' n)) @ '' '' @ t @ eol' @ eol' @
     c @ eol' @ eol' @
     ''[See in context](./src/a.js#L10-L14)'' @ eol' @ eol'"
    by (simp add: renderNote_def contextLink_value)
next
  show "jsArch
     \<lparr> recast_comments = (\<lambda>s. Inr
         [\<lparr> comment_value = '' Architecture Note #1.2: Title'' @ [CHR 0x0A, CHR 0x0A] @ ''Body text.'',
            comment_loc = \<lparr> loc_start = \<lparr> line = 10, column = 0 \<rparr>,
                            loc_end = \<lparr> line = 14, column = 2 \<rparr> \<rparr> \<rparr>]),
       array_sort = (\<lambda>comparefn xs. case arraySort_v8 comparefn xs of None \<Rightarrow> xs | Some ys \<Rightarrow> ys),
       process_cwd = ''/repo'' \<rparr>
     \<lparr> EOL = [CHR 0x0A],
       glob = (\<lambda>p. Inr [''/repo/src/a.js'']),
       readFileAsync = (\<lambda>f. Inr ''/* a note */'') \<rparr>
     \<lparr> cwd = ''/repo'', patterns = [''src/*.js''], eol = None, titleLevel = None, base = Some ''.'' \<rparr>
   = Inr (join [CHR 0x0A]
       [''# Architecture Notes'', [], [], [],
        ''### Title'', [],
        ''Body text.'', [],
        ''[See in context](./src/a.js#L10-L14)'', [], []])"
    by code_simp
qed

section \<open>Properties of the sort\<close>

text \<open>
  Claim C5. The five notes arrive in the order 1.1, 1, 1.2, 2, 10. The sort asks
  the comparator for 1 against 1.1, is told 0, takes the array for one ascending
  run and leaves 1.1 before 1. (10 does compare greater than 2.)
\<close>

theorem sort_keeps_descendant_first:
  "arraySort_v8 compareArchitectureNotes (map noteNumbered [''1.1'', ''1'', ''1.2'', ''2'', ''10''])
     = Some (map noteNumbered [''1.1'', ''1'', ''1.2'', ''2'', ''10''])
   \<and> compareArchitectureNotes (noteNumbered ''10'') (noteNumbered ''2'') = 1"
  by code_simp

end
